theory Spec2Isabelle
  imports Complex_Main "HOL-Library.Sublist"
begin

section \<open>Python values\<close>

text \<open>
  Both modules work on the values \<^verbatim>\<open>json.loads\<close> produces: \<^verbatim>\<open>None\<close>, booleans,
  unbounded integers, floats, strings, lists and dictionaries with string keys.
  A dictionary is an association list in insertion order; a lookup takes the first
  binding of a key, and the keys of a dictionary are the distinct first components.
  Floats are modelled as reals: \<^verbatim>\<open>NaN\<close> and the infinities are not represented.
  A string is the list of its code points. A \<open>char\<close> has 256 values, so the strings of
  the model are those of code points below 256; the accented letters of the Portuguese
  literals are among them (\<open>0xE3\<close> is a with tilde, \<open>0xE9\<close> is e with acute).
\<close>

datatype pyval =
    PNone
  | PBool bool
  | PInt int
  | PFloat real
  | PStr string
  | PList "pyval list"
  | PDict "(string \<times> pyval) list"

text \<open>
  Exceptions, all of them instances of \<^verbatim>\<open>Exception\<close>. \<open>JSONDecodeError\<close> is the one
  subclass of \<^verbatim>\<open>ValueError\<close> that the code names on its own. \<open>OtherError\<close> stands for
  whatever an external collaborator (AI backend, persistence layer, browser) raises.
\<close>

datatype py_exc =
    TypeError
  | ValueError
  | AttributeError
  | KeyError
  | IndexError
  | OverflowError
  | ImportError
  | JSONDecodeError
  | OSError
  | OtherError string

text \<open>
  What the Python runtime does that is not spelled out here: the text \<^verbatim>\<open>str(e)\<close> of an
  exception, \<^verbatim>\<open>float(n)\<close> for an integer \<open>n\<close> beyond \<open>2^53\<close> in absolute value (rounding; or
  \<^verbatim>\<open>OverflowError\<close>, the value \<open>None\<close>), \<^verbatim>\<open>float(s)\<close> for a string (\<open>None\<close> is
  \<^verbatim>\<open>ValueError\<close>), and \<^verbatim>\<open>s.lower()\<close>.
\<close>

record py_runtime =
  exc_str :: "py_exc \<Rightarrow> string"
  float_of_big_int :: "int \<Rightarrow> real option"
  float_of_str :: "string \<Rightarrow> real option"
  str_lower :: "string \<Rightarrow> string"

definition pbind :: "py_exc + 'a \<Rightarrow> ('a \<Rightarrow> py_exc + 'b) \<Rightarrow> py_exc + 'b" where
  "pbind m f = (case m of Inl e \<Rightarrow> Inl e | Inr x \<Rightarrow> f x)"

fun py_truthy :: "pyval \<Rightarrow> bool" where
  "py_truthy PNone = False"
| "py_truthy (PBool b) = b"
| "py_truthy (PInt i) = (i \<noteq> 0)"
| "py_truthy (PFloat r) = (r \<noteq> 0)"
| "py_truthy (PStr s) = (s \<noteq> [])"
| "py_truthy (PList xs) = (xs \<noteq> [])"
| "py_truthy (PDict d) = (d \<noteq> [])"

definition dict_keys :: "(string \<times> pyval) list \<Rightarrow> string list" where
  "dict_keys d = remdups (map fst d)"

definition dict_get :: "(string \<times> pyval) list \<Rightarrow> string \<Rightarrow> pyval \<Rightarrow> pyval" where
  "dict_get d k dflt = (case map_of d k of None \<Rightarrow> dflt | Some v \<Rightarrow> v)"

text \<open>\<^verbatim>\<open>obj.get(k, default)\<close>: only a dictionary has the method.\<close>

fun py_get :: "pyval \<Rightarrow> string \<Rightarrow> pyval \<Rightarrow> py_exc + pyval" where
  "py_get (PDict d) k dflt = Inr (dict_get d k dflt)"
| "py_get _ k dflt = Inl AttributeError"

text \<open>\<^verbatim>\<open>len(obj)\<close>\<close>

fun py_len :: "pyval \<Rightarrow> py_exc + nat" where
  "py_len (PStr s) = Inr (length s)"
| "py_len (PList xs) = Inr (length xs)"
| "py_len (PDict d) = Inr (length (dict_keys d))"
| "py_len _ = Inl TypeError"

text \<open>
  \<^verbatim>\<open>k in obj\<close> for a string \<open>k\<close>: a key of a dictionary, an element of a list, a
  substring of a string; \<^verbatim>\<open>TypeError\<close> for a value that is not a container.
\<close>

fun py_in :: "string \<Rightarrow> pyval \<Rightarrow> py_exc + bool" where
  "py_in k (PDict d) = Inr (k \<in> set (map fst d))"
| "py_in k (PList xs) = Inr (PStr k \<in> set xs)"
| "py_in k (PStr s) = Inr (sublist k s)"
| "py_in k _ = Inl TypeError"

text \<open>\<^verbatim>\<open>obj[k]\<close> for a string key and \<^verbatim>\<open>obj[0]\<close>.\<close>

fun py_item :: "pyval \<Rightarrow> string \<Rightarrow> py_exc + pyval" where
  "py_item (PDict d) k = (case map_of d k of None \<Rightarrow> Inl KeyError | Some v \<Rightarrow> Inr v)"
| "py_item _ k = Inl TypeError"

fun py_first :: "pyval \<Rightarrow> py_exc + pyval" where
  "py_first (PList (x # xs)) = Inr x"
| "py_first (PStr (c # cs)) = Inr (PStr [c])"
| "py_first (PDict d) = Inl KeyError"
| "py_first (PList []) = Inl IndexError"
| "py_first (PStr []) = Inl IndexError"
| "py_first _ = Inl TypeError"

text \<open>\<^verbatim>\<open>obj.keys()\<close>\<close>

fun py_keys :: "pyval \<Rightarrow> py_exc + string list" where
  "py_keys (PDict d) = Inr (dict_keys d)"
| "py_keys _ = Inl AttributeError"

text \<open>\<^verbatim>\<open>d[k] = v\<close> on a dictionary: an existing key keeps its place, a new key goes last.\<close>

fun dict_set :: "(string \<times> pyval) list \<Rightarrow> string \<Rightarrow> pyval \<Rightarrow> (string \<times> pyval) list" where
  "dict_set [] k v = [(k, v)]"
| "dict_set (p # ps) k v = (if fst p = k then (k, v) # ps else p # dict_set ps k v)"

section \<open>The CPL creator (\<^verbatim>\<open>src/modules/cpl_creator.py\<close>)\<close>

subsection \<open>String literals\<close>

definition nao_especificado :: string where
  "nao_especificado = ''N'' @ [CHR 0xE3] @ ''o especificado''"

definition nao_especificada :: string where
  "nao_especificada = ''N'' @ [CHR 0xE3] @ ''o especificada''"

definition nao_aplicavel :: string where
  "nao_aplicavel = ''N'' @ [CHR 0xE3] @ ''o aplic'' @ [CHR 0xE1] @ ''vel''"

definition medio :: string where
  "medio = ''M'' @ [CHR 0xE9] @ ''dio''"

definition erro_na_geracao :: string where
  "erro_na_geracao = ''Erro na gera'' @ [CHR 0xE7, CHR 0xE3] @ ''o''"

definition tentar_regenerar :: string where
  "tentar_regenerar = ''Tentar regenerar o m'' @ [CHR 0xF3] @ ''dulo''"

definition titulo_erro :: string where
  "titulo_erro = ''Protocolo de CPLs - Erro na Gera'' @ [CHR 0xE7, CHR 0xE3] @ ''o''"

definition descricao_erro :: "string \<Rightarrow> string" where
  "descricao_erro msg =
     ''N'' @ [CHR 0xE3] @ ''o foi poss'' @ [CHR 0xED]
       @ ''vel gerar o protocolo completo devido a: '' @ msg"

subsection \<open>\<^verbatim>\<open>validar_estrutura_cpl\<close>\<close>

definition campos_obrigatorios :: "string list" where
  "campos_obrigatorios = [''titulo'', ''descricao'', ''fases'', ''consideracoes_finais'']"

definition fases_esperadas :: "string list" where
  "fases_esperadas =
     [''fase_1_arquitetura'', ''fase_2_cpl1'', ''fase_3_cpl2'', ''fase_4_cpl3'', ''fase_5_cpl4'']"

text \<open>
  The two loops \<^verbatim>\<open>for campo in ...: if campo not in obj: return False\<close>: \<open>Inr False\<close>
  is the early return, \<open>Inr True\<close> falls through to what follows the loop.
\<close>

fun all_present :: "string list \<Rightarrow> pyval \<Rightarrow> py_exc + bool" where
  "all_present [] obj = Inr True"
| "all_present (c # cs) obj =
     (case py_in c obj of
        Inl e \<Rightarrow> Inl e
      | Inr b \<Rightarrow> if \<not> b then Inr False else all_present cs obj)"

definition validar_body :: "pyval \<Rightarrow> py_exc + bool" where
  "validar_body modulo_cpl =
     pbind (all_present campos_obrigatorios modulo_cpl) (\<lambda>ok.
       if \<not> ok then Inr False
       else pbind (py_get modulo_cpl ''fases'' (PDict [])) (\<lambda>fases.
         all_present fases_esperadas fases))"

text \<open>The \<^verbatim>\<open>except Exception\<close> of the function returns \<^verbatim>\<open>False\<close>.\<close>

definition validar_estrutura_cpl :: "pyval \<Rightarrow> bool" where
  "validar_estrutura_cpl modulo_cpl =
     (case validar_body modulo_cpl of Inl e \<Rightarrow> False | Inr b \<Rightarrow> b)"

text \<open>
  The reading of the structure the validator is documented to check: the value is a
  mapping, and a name is a key of it.
\<close>

fun has_key :: "pyval \<Rightarrow> string \<Rightarrow> bool" where
  "has_key (PDict d) k = (k \<in> set (map fst d))"
| "has_key _ k = False"

definition required_key_absent :: "(string \<times> pyval) list \<Rightarrow> bool" where
  "required_key_absent d =
     ((\<exists>k \<in> set campos_obrigatorios. \<not> has_key (PDict d) k) \<or>
      (\<exists>k \<in> set fases_esperadas. \<not> has_key (dict_get d ''fases'' (PDict [])) k))"

subsection \<open>\<^verbatim>\<open>gerar_sumario_executivo\<close>\<close>

text \<open>\<^verbatim>\<open>len(fases.get(phase, {}).get(field, []))\<close>\<close>

definition len_of_field :: "pyval \<Rightarrow> string \<Rightarrow> string \<Rightarrow> py_exc + nat" where
  "len_of_field fases phase field =
     pbind (py_get fases phase (PDict [])) (\<lambda>p.
     pbind (py_get p field (PList [])) py_len)"

definition total_elementos :: "pyval \<Rightarrow> nat \<Rightarrow> py_exc + nat" where
  "total_elementos fases total_bonus =
     pbind (len_of_field fases ''fase_2_cpl1'' ''teasers'') (\<lambda>n1.
     pbind (len_of_field fases ''fase_3_cpl2'' ''casos_sucesso_detalhados'') (\<lambda>n2.
     pbind (len_of_field fases ''fase_4_cpl3'' ''estrutura_passo_passo'') (\<lambda>n3.
     Inr (n1 + n2 + n3 + total_bonus))))"

definition count_bonus :: "pyval \<Rightarrow> py_exc + nat" where
  "count_bonus stack_valor =
     pbind (py_keys stack_valor) (\<lambda>ks. Inr (length (filter (prefix ''bonus_'') ks)))"

definition count_garantias :: "pyval \<Rightarrow> nat" where
  "count_garantias garantias = (case garantias of PList gs \<Rightarrow> length gs | _ \<Rightarrow> 0)"

definition sumario_inicial :: "pyval \<Rightarrow> nat \<Rightarrow> pyval \<Rightarrow> (string \<times> pyval) list" where
  "sumario_inicial titulo n_fases estrategia =
     [(''titulo_protocolo'', titulo),
      (''total_fases'', PInt (int n_fases)),
      (''estrategia_principal'', estrategia),
      (''evento_recomendado'', PNone),
      (''total_bonus'', PInt 0),
      (''garantias_oferecidas'', PInt 0),
      (''nivel_complexidade'', PStr medio),
      (''tempo_implementacao_estimado'', PStr ''7-14 dias'')]"

text \<open>
  \<^verbatim>\<open>if "versoes_evento" in arquitetura and arquitetura["versoes_evento"]: ...\<close>
\<close>

definition extrair_evento ::
  "pyval \<Rightarrow> (string \<times> pyval) list \<Rightarrow> py_exc + (string \<times> pyval) list" where
  "extrair_evento arquitetura sumario =
     pbind (py_in ''versoes_evento'' arquitetura) (\<lambda>present.
       if \<not> present then Inr sumario
       else pbind (py_item arquitetura ''versoes_evento'') (\<lambda>versoes.
         if \<not> py_truthy versoes then Inr sumario
         else pbind (py_first versoes) (\<lambda>primeiro_evento.
              pbind (py_get primeiro_evento ''nome_evento'' (PStr nao_especificado)) (\<lambda>nome.
              Inr (dict_set sumario ''evento_recomendado'' nome)))))"

definition nivel_de :: "nat \<Rightarrow> (string \<times> pyval) list \<Rightarrow> (string \<times> pyval) list" where
  "nivel_de n_total sumario =
     (if n_total > 20 then dict_set sumario ''nivel_complexidade'' (PStr ''Alto'')
      else if n_total < 10 then dict_set sumario ''nivel_complexidade'' (PStr ''Baixo'')
      else sumario)"

text \<open>The body of the \<^verbatim>\<open>try\<close>, in the order the source evaluates it.\<close>

definition sumario_body :: "pyval \<Rightarrow> py_exc + (string \<times> pyval) list" where
  "sumario_body modulo_cpl =
     pbind (py_get modulo_cpl ''fases'' (PDict [])) (\<lambda>fases.
     pbind (py_get modulo_cpl ''titulo'' (PStr nao_especificado)) (\<lambda>titulo.
     pbind (py_len fases) (\<lambda>n_fases.
     pbind (py_get fases ''fase_1_arquitetura'' (PDict [])) (\<lambda>f1.
     pbind (py_get f1 ''estrategia'' (PStr nao_especificada)) (\<lambda>estrategia.
     pbind (py_get fases ''fase_1_arquitetura'' (PDict [])) (\<lambda>arquitetura.
     pbind (extrair_evento arquitetura (sumario_inicial titulo n_fases estrategia)) (\<lambda>s1.
     pbind (py_get fases ''fase_5_cpl4'' (PDict [])) (\<lambda>cpl4.
     pbind (py_get cpl4 ''stack_valor'' (PDict [])) (\<lambda>stack_valor.
     pbind (count_bonus stack_valor) (\<lambda>total_bonus.
     pbind (py_get cpl4 ''garantias_agressivas'' (PList [])) (\<lambda>garantias.
     pbind (total_elementos fases total_bonus) (\<lambda>n_total.
     Inr (nivel_de n_total
            (dict_set (dict_set s1 ''total_bonus'' (PInt (int total_bonus)))
               ''total_garantias'' (PInt (int (count_garantias garantias)))))))))))))))))"

definition sumario_erro :: "py_runtime \<Rightarrow> py_exc \<Rightarrow> (string \<times> pyval) list" where
  "sumario_erro rt e =
     [(''titulo_protocolo'', PStr erro_na_geracao),
      (''total_fases'', PInt 0),
      (''estrategia_principal'', PStr nao_especificada),
      (''erro'', PStr (exc_str rt e))]"

definition gerar_sumario_executivo :: "py_runtime \<Rightarrow> pyval \<Rightarrow> pyval" where
  "gerar_sumario_executivo rt modulo_cpl =
     (case sumario_body modulo_cpl of
        Inr sumario \<Rightarrow> PDict sumario
      | Inl e \<Rightarrow> PDict (sumario_erro rt e))"

text \<open>
  Projections used to state what the summary reports: the bonus count and the guarantees
  value, read the way the function reads them.
\<close>

definition bonus_de :: "pyval \<Rightarrow> py_exc + nat" where
  "bonus_de fases =
     pbind (py_get fases ''fase_5_cpl4'' (PDict [])) (\<lambda>cpl4.
     pbind (py_get cpl4 ''stack_valor'' (PDict [])) count_bonus)"

definition garantias_de :: "pyval \<Rightarrow> py_exc + pyval" where
  "garantias_de fases =
     pbind (py_get fases ''fase_5_cpl4'' (PDict [])) (\<lambda>cpl4.
     py_get cpl4 ''garantias_agressivas'' (PList []))"


subsection \<open>\<^verbatim>\<open>generate_cpl_module\<close>\<close>

text \<open>
  The collaborators of the generator are not part of the two source files; they are
  parameters. \<open>ai_generate\<close> is \<^verbatim>\<open>enhanced_ai_manager.generate_with_active_search\<close>
  (prompt, context, session id, maximal number of search iterations), \<open>salvar_etapa\<close> the
  persistence call (step name, payload, category, session id; \<open>Some e\<close> when it raises
  \<open>e\<close>), \<open>json_loads\<close> and \<open>json_dumps\<close> the JSON library, \<open>render_prompt\<close> the fixed
  instruction template around the serialised context, \<open>now_iso\<close> the time stamp.
\<close>

record cpl_env =
  json_dumps :: "pyval \<Rightarrow> string"
  render_prompt :: "string \<Rightarrow> string"
  ai_generate :: "string \<Rightarrow> string \<Rightarrow> string \<Rightarrow> nat \<Rightarrow> py_exc + pyval"
  json_loads :: "string \<Rightarrow> py_exc + pyval"
  salvar_etapa :: "string \<Rightarrow> pyval \<Rightarrow> string \<Rightarrow> string \<Rightarrow> py_exc option"
  now_iso :: string

text \<open>What the persistence layer holds: the saved steps, oldest first.\<close>

type_synonym etapa = "string \<times> pyval \<times> string \<times> string"

text \<open>\<^verbatim>\<open>obj[:n]\<close>\<close>

fun py_slice :: "pyval \<Rightarrow> nat \<Rightarrow> py_exc + pyval" where
  "py_slice (PList xs) n = Inr (PList (take n xs))"
| "py_slice (PStr s) n = Inr (PStr (take n s))"
| "py_slice _ n = Inl TypeError"

definition dict_items :: "(string \<times> pyval) list \<Rightarrow> (string \<times> pyval) list" where
  "dict_items d = map (\<lambda>k. (k, dict_get d k PNone)) (dict_keys d)"

text \<open>
  \<^verbatim>\<open>{k: v for k, v in list(dados_web.items())[:5]} if dados_web else {}\<close>
\<close>

definition dados_amostra :: "pyval \<Rightarrow> py_exc + pyval" where
  "dados_amostra dados_web =
     (if py_truthy dados_web then
        (case dados_web of
           PDict d \<Rightarrow> Inr (PDict (take 5 (dict_items d)))
         | _ \<Rightarrow> Inl AttributeError)
      else Inr (PDict []))"

text \<open>
  \<^verbatim>\<open>contexto_estrategico.get(k, [])[:n] if contexto_estrategico else []\<close>
\<close>

definition campo_contexto :: "pyval \<Rightarrow> string \<Rightarrow> nat \<Rightarrow> py_exc + pyval" where
  "campo_contexto contexto_estrategico k n =
     (if py_truthy contexto_estrategico then
        pbind (py_get contexto_estrategico k (PList [])) (\<lambda>v. py_slice v n)
      else Inr (PList []))"

definition contexto_para_ia :: "pyval \<Rightarrow> pyval \<Rightarrow> pyval \<Rightarrow> pyval \<Rightarrow> py_exc + pyval" where
  "contexto_para_ia sintese_master avatar_data contexto_estrategico dados_web =
     pbind (dados_amostra dados_web) (\<lambda>dw.
     pbind (campo_contexto contexto_estrategico ''termos_chave'' 10) (\<lambda>termos.
     pbind (campo_contexto contexto_estrategico ''objecoes'' 5) (\<lambda>objecoes.
     pbind (campo_contexto contexto_estrategico ''tendencias'' 5) (\<lambda>tendencias.
     pbind (campo_contexto contexto_estrategico ''casos_sucesso'' 5) (\<lambda>casos.
     Inr (PDict
       [(''sintese_analise'', sintese_master),
        (''avatar_cliente'', avatar_data),
        (''contexto_estrategico'', contexto_estrategico),
        (''dados_pesquisa_web'', dw),
        (''termos_chave'', termos),
        (''objecoes_identificadas'', objecoes),
        (''tendencias_mercado'', tendencias),
        (''casos_sucesso_reais'', casos)]))))))"

definition consideracoes_padrao :: pyval where
  "consideracoes_padrao = PDict
     [(''impacto_previsto'', PStr nao_aplicavel),
      (''diferenciais'', PList []),
      (''proximos_passos'', PList [PStr ''Verificar logs de erro'', PStr tentar_regenerar])]"

definition fallback_cpl :: pyval where
  "fallback_cpl = PDict
     [(''titulo'', PStr ''Protocolo de CPLs Devastadores''),
      (''descricao'',
         PStr (''Protocolo gerado com base nos dados estrat'' @ [CHR 0xE9]
               @ ''gicos dispon'' @ [CHR 0xED] @ ''veis'')),
      (''fases'', PDict []),
      (''consideracoes_finais'', consideracoes_padrao)]"

definition erro_cpl :: "string \<Rightarrow> pyval" where
  "erro_cpl msg = PDict
     [(''titulo'', PStr titulo_erro),
      (''descricao'', PStr (descricao_erro msg)),
      (''fases'', PDict []),
      (''consideracoes_finais'', consideracoes_padrao)]"

text \<open>\<^verbatim>\<open>json.loads(x)\<close>: \<^verbatim>\<open>TypeError\<close> for what is not text.\<close>

definition py_json_loads :: "cpl_env \<Rightarrow> pyval \<Rightarrow> py_exc + pyval" where
  "py_json_loads env x = (case x of PStr s \<Rightarrow> json_loads env s | _ \<Rightarrow> Inl TypeError)"

text \<open>
  The inner \<^verbatim>\<open>try\<close>: parse the answer and save the parsed module. Both calls are under
  the \<^verbatim>\<open>except json.JSONDecodeError\<close>.
\<close>

definition parse_e_salvar :: "cpl_env \<Rightarrow> string \<Rightarrow> pyval \<Rightarrow> py_exc + pyval" where
  "parse_e_salvar env session_id conteudo_modulo =
     pbind (py_json_loads env conteudo_modulo) (\<lambda>modulo_cpl.
       case salvar_etapa env ''cpl_completo'' modulo_cpl ''modulos_principais'' session_id of
         Some e \<Rightarrow> Inl e
       | None \<Rightarrow> Inr modulo_cpl)"

text \<open>
  The outer \<^verbatim>\<open>except Exception\<close>: save the error record, return the error structure.
  The save is not protected: what it raises reaches the caller.
\<close>

definition cpl_handler ::
  "py_runtime \<Rightarrow> cpl_env \<Rightarrow> etapa list \<Rightarrow> string \<Rightarrow> py_exc \<Rightarrow> etapa list \<times> (py_exc + pyval)" where
  "cpl_handler rt env saved session_id e =
     (let registro = PDict [(''erro'', PStr (exc_str rt e))] in
      case salvar_etapa env ''cpl_erro'' registro ''modulos_principais'' session_id of
        Some e' \<Rightarrow> (saved, Inl e')
      | None \<Rightarrow>
          (saved @ [(''cpl_erro'', registro, ''modulos_principais'', session_id)],
           Inr (erro_cpl (exc_str rt e))))"

definition generate_cpl_module ::
  "py_runtime \<Rightarrow> cpl_env \<Rightarrow> etapa list \<Rightarrow> string \<Rightarrow> pyval \<Rightarrow> pyval \<Rightarrow> pyval \<Rightarrow> pyval
     \<Rightarrow> etapa list \<times> (py_exc + pyval)" where
  "generate_cpl_module rt env saved session_id sintese_master avatar_data
       contexto_estrategico dados_web =
     (case contexto_para_ia sintese_master avatar_data contexto_estrategico dados_web of
        Inl e \<Rightarrow> cpl_handler rt env saved session_id e
      | Inr contexto \<Rightarrow>
         (case ai_generate env (render_prompt env (json_dumps env contexto))
                 (json_dumps env contexto) session_id 2 of
            Inl e \<Rightarrow> cpl_handler rt env saved session_id e
          | Inr conteudo_modulo \<Rightarrow>
             (case parse_e_salvar env session_id conteudo_modulo of
                Inr modulo_cpl \<Rightarrow>
                  (saved @ [(''cpl_completo'', modulo_cpl, ''modulos_principais'', session_id)],
                   Inr modulo_cpl)
              | Inl JSONDecodeError \<Rightarrow>
                  (case salvar_etapa env ''cpl_completo'' fallback_cpl ''modulos_principais''
                          session_id of
                     Some e \<Rightarrow> cpl_handler rt env saved session_id e
                   | None \<Rightarrow>
                       (saved @ [(''cpl_completo'', fallback_cpl, ''modulos_principais'',
                                  session_id)],
                        Inr fallback_cpl))
              | Inl e \<Rightarrow> cpl_handler rt env saved session_id e)))"

text \<open>
  The generator is on its success path when the context is built, the backend answers,
  the answer parses and the parsed module is saved; every other path is degraded.
\<close>

definition caminho_sucesso ::
  "cpl_env \<Rightarrow> string \<Rightarrow> pyval \<Rightarrow> pyval \<Rightarrow> pyval \<Rightarrow> pyval \<Rightarrow> pyval option" where
  "caminho_sucesso env session_id sintese_master avatar_data contexto_estrategico dados_web =
     (case contexto_para_ia sintese_master avatar_data contexto_estrategico dados_web of
        Inl e \<Rightarrow> None
      | Inr contexto \<Rightarrow>
         (case ai_generate env (render_prompt env (json_dumps env contexto))
                 (json_dumps env contexto) session_id 2 of
            Inl e \<Rightarrow> None
          | Inr conteudo_modulo \<Rightarrow>
             (case parse_e_salvar env session_id conteudo_modulo of
                Inl e \<Rightarrow> None
              | Inr modulo_cpl \<Rightarrow> Some modulo_cpl)))"

definition exact_keys :: "pyval \<Rightarrow> string list \<Rightarrow> bool" where
  "exact_keys v ks = (case v of PDict d \<Rightarrow> set (map fst d) = set ks | _ \<Rightarrow> False)"

subsection \<open>\<^verbatim>\<open>executar_fluxo_completo_cpl\<close>\<close>

definition fluxo_erro :: "py_runtime \<Rightarrow> cpl_env \<Rightarrow> string \<Rightarrow> py_exc \<Rightarrow> pyval" where
  "fluxo_erro rt env session_id e = PDict
     [(''modulo_cpl'', PDict []),
      (''validacao'', PDict
         [(''estrutura_valida'', PBool False),
          (''erro'', PStr (exc_str rt e)),
          (''timestamp_geracao'', PStr (now_iso env)),
          (''session_id'', PStr session_id)]),
      (''sumario_executivo'', PDict [(''erro'', PStr (exc_str rt e))]),
      (''metadados'', PDict
         [(''versao_sistema'', PStr ''ARQV30 Enhanced v3.0''),
          (''modulo'', PStr ''CPL Creator''),
          (''status'', PStr ''erro'')])]"

definition resultado_final ::
  "cpl_env \<Rightarrow> string \<Rightarrow> pyval \<Rightarrow> bool \<Rightarrow> pyval \<Rightarrow> nat
     \<Rightarrow> pyval \<Rightarrow> pyval \<Rightarrow> pyval \<Rightarrow> pyval \<Rightarrow> pyval" where
  "resultado_final env session_id modulo_cpl estrutura_valida sumario n_fases
       sintese_master avatar_data contexto_estrategico dados_web = PDict
     [(''modulo_cpl'', modulo_cpl),
      (''validacao'', PDict
         [(''estrutura_valida'', PBool estrutura_valida),
          (''timestamp_geracao'', PStr (now_iso env)),
          (''session_id'', PStr session_id)]),
      (''sumario_executivo'', sumario),
      (''metadados'', PDict
         [(''versao_sistema'', PStr ''ARQV30 Enhanced v3.0''),
          (''modulo'', PStr ''CPL Creator''),
          (''total_fases_geradas'', PInt (int n_fases)),
          (''contexto_utilizado'', PDict
             [(''sintese_master'', PBool (py_truthy sintese_master)),
              (''avatar_data'', PBool (py_truthy avatar_data)),
              (''contexto_estrategico'', PBool (py_truthy contexto_estrategico)),
              (''dados_web'', PBool (py_truthy dados_web))])])]"

definition executar_fluxo_completo_cpl ::
  "py_runtime \<Rightarrow> cpl_env \<Rightarrow> etapa list \<Rightarrow> string \<Rightarrow> pyval \<Rightarrow> pyval \<Rightarrow> pyval \<Rightarrow> pyval
     \<Rightarrow> etapa list \<times> pyval" where
  "executar_fluxo_completo_cpl rt env saved session_id sintese_master avatar_data
       contexto_estrategico dados_web =
     (case generate_cpl_module rt env saved session_id sintese_master avatar_data
             contexto_estrategico dados_web of
        (saved1, Inl e) \<Rightarrow> (saved1, fluxo_erro rt env session_id e)
      | (saved1, Inr modulo_cpl) \<Rightarrow>
         (let estrutura_valida = validar_estrutura_cpl modulo_cpl;
              sumario = gerar_sumario_executivo rt modulo_cpl
          in case pbind (py_get modulo_cpl ''fases'' (PDict [])) py_len of
               Inl e \<Rightarrow> (saved1, fluxo_erro rt env session_id e)
             | Inr n_fases \<Rightarrow>
                (let resultado = resultado_final env session_id modulo_cpl estrutura_valida
                       sumario n_fases sintese_master avatar_data contexto_estrategico dados_web
                 in case salvar_etapa env ''fluxo_cpl_completo'' resultado
                           ''modulos_principais'' session_id of
                      Some e \<Rightarrow> (saved1, fluxo_erro rt env session_id e)
                    | None \<Rightarrow>
                        (saved1 @ [(''fluxo_cpl_completo'', resultado, ''modulos_principais'',
                                    session_id)],
                         resultado))))"

text \<open>\<^verbatim>\<open>resultado["validacao"]["estrutura_valida"]\<close>\<close>

definition estrutura_valida_de :: "pyval \<Rightarrow> py_exc + pyval" where
  "estrutura_valida_de resultado =
     pbind (py_item resultado ''validacao'') (\<lambda>v. py_item v ''estrutura_valida'')"

subsection \<open>Concrete inputs\<close>

definition rt0 :: py_runtime where
  "rt0 = \<lparr> exc_str = (\<lambda>e. case e of OtherError m \<Rightarrow> m | _ \<Rightarrow> ''error''),
           float_of_big_int = (\<lambda>i. None),
           float_of_str = (\<lambda>s. None),
           str_lower = (\<lambda>s. s) \<rparr>"

text \<open>A backend that answers with the text \<^verbatim>\<open>{}\<close>, which parses to the empty mapping.\<close>

definition env_json_vazio :: cpl_env where
  "env_json_vazio =
     \<lparr> json_dumps = (\<lambda>v. []),
       render_prompt = (\<lambda>c. c),
       ai_generate = (\<lambda>prompt ctx sid n. Inr (PStr ''{}'')),
       json_loads = (\<lambda>s. if s = ''{}'' then Inr (PDict []) else Inl JSONDecodeError),
       salvar_etapa = (\<lambda>nome payload categoria sid. None),
       now_iso = ''2025-01-01T00:00:00'' \<rparr>"

text \<open>A backend that raises, and one that answers with text that is not JSON.\<close>

definition env_ia_falha :: cpl_env where
  "env_ia_falha =
     env_json_vazio \<lparr> ai_generate := (\<lambda>prompt ctx sid n. Inl (OtherError ''timeout'')) \<rparr>"

definition env_texto_invalido :: cpl_env where
  "env_texto_invalido =
     env_json_vazio \<lparr> ai_generate := (\<lambda>prompt ctx sid n. Inr (PStr ''not json'')) \<rparr>"

text \<open>A module whose \<open>fases\<close> is the list of the five phase names.\<close>

definition cpl_fases_lista :: "(string \<times> pyval) list" where
  "cpl_fases_lista =
     [(''titulo'', PStr ''t''),
      (''descricao'', PStr ''d''),
      (''fases'', PList (map PStr fases_esperadas)),
      (''consideracoes_finais'', PDict [])]"

text \<open>
  A module with three teasers, two detailed cases, four steps, three bonus keys and two
  guarantees.
\<close>

definition cpl_exemplo_12 :: pyval where
  "cpl_exemplo_12 = PDict
     [(''titulo'', PStr ''Protocolo''),
      (''fases'', PDict
         [(''fase_2_cpl1'', PDict [(''teasers'', PList [PStr ''t1'', PStr ''t2'', PStr ''t3''])]),
          (''fase_3_cpl2'', PDict [(''casos_sucesso_detalhados'', PList [PDict [], PDict []])]),
          (''fase_4_cpl3'', PDict [(''estrutura_passo_passo'',
              PList [PStr ''p1'', PStr ''p2'', PStr ''p3'', PStr ''p4''])]),
          (''fase_5_cpl4'', PDict
             [(''stack_valor'', PDict
                 [(''bonus_1'', PStr ''a''), (''bonus_2'', PStr ''b''), (''bonus_3'', PStr ''c''),
                  (''valor_total'', PStr ''R$ 1'')]),
              (''garantias_agressivas'', PList [PStr ''g1'', PStr ''g2''])])])]"

section \<open>The viral content analyzer (\<^verbatim>\<open>src/services/viral_content_analyzer.py\<close>)\<close>

subsection \<open>\<^verbatim>\<open>_identify_viral_content\<close>\<close>

text \<open>
  \<^verbatim>\<open>float(x)\<close>: exact on booleans and on integers up to \<open>2^53\<close> in absolute value; on a
  larger integer and on a string it is what the runtime says; \<^verbatim>\<open>TypeError\<close> on
  \<^verbatim>\<open>None\<close>, lists and dictionaries.
\<close>

definition py_float :: "py_runtime \<Rightarrow> pyval \<Rightarrow> py_exc + real" where
  "py_float rt v =
     (case v of
        PBool b \<Rightarrow> Inr (if b then 1 else 0)
      | PInt i \<Rightarrow>
          (if \<bar>i\<bar> \<le> 2 ^ 53 then Inr (real_of_int i)
           else (case float_of_big_int rt i of None \<Rightarrow> Inl OverflowError | Some r \<Rightarrow> Inr r))
      | PFloat r \<Rightarrow> Inr r
      | PStr s \<Rightarrow> (case float_of_str rt s of None \<Rightarrow> Inl ValueError | Some r \<Rightarrow> Inr r)
      | _ \<Rightarrow> Inl TypeError)"

text \<open>What \<^verbatim>\<open>except (ValueError, TypeError)\<close> catches.\<close>

definition value_or_type_error :: "py_exc \<Rightarrow> bool" where
  "value_or_type_error e = (e = ValueError \<or> e = JSONDecodeError \<or> e = TypeError)"

text \<open>
  The local function \<^verbatim>\<open>sort_key\<close>:
  \<^verbatim>\<open>float(item.get('viral_score', item.get('engagement_rate', 0)))\<close>, and \<open>0.0\<close> when
  the conversion raises \<^verbatim>\<open>ValueError\<close> or \<^verbatim>\<open>TypeError\<close>.
\<close>

definition sort_key_score :: "py_runtime \<Rightarrow> pyval \<Rightarrow> py_exc + real" where
  "sort_key_score rt item =
     pbind (py_get item ''engagement_rate'' (PInt 0)) (\<lambda>engagement.
     pbind (py_get item ''viral_score'' engagement) (\<lambda>score.
       case py_float rt score of
         Inr r \<Rightarrow> Inr r
       | Inl e \<Rightarrow> if value_or_type_error e then Inr 0 else Inl e))"

text \<open>
  \<^verbatim>\<open>sorted(xs, key=sort_key, reverse=True)\<close>: the keys are computed first, one per
  element and in order; the sort is stable, so elements with equal keys keep the order
  of the input.
\<close>

fun keyed :: "py_runtime \<Rightarrow> pyval list \<Rightarrow> py_exc + (real \<times> pyval) list" where
  "keyed rt [] = Inr []"
| "keyed rt (x # xs) =
     (case sort_key_score rt x of
        Inl e \<Rightarrow> Inl e
      | Inr k \<Rightarrow> (case keyed rt xs of Inl e \<Rightarrow> Inl e | Inr kxs \<Rightarrow> Inr ((k, x) # kxs)))"

definition sorted_by_score :: "py_runtime \<Rightarrow> pyval list \<Rightarrow> py_exc + pyval list" where
  "sorted_by_score rt xs =
     pbind (keyed rt xs) (\<lambda>kxs. Inr (map snd (sort_key (\<lambda>p. - fst p) kxs)))"

text \<open>
  Membership in the set \<^verbatim>\<open>seen_urls\<close>: hashing a list or a dictionary raises
  \<^verbatim>\<open>TypeError\<close>; numbers are equal across \<^verbatim>\<open>bool\<close>, \<^verbatim>\<open>int\<close> and \<^verbatim>\<open>float\<close>.
\<close>

fun py_hashable :: "pyval \<Rightarrow> bool" where
  "py_hashable (PList xs) = False"
| "py_hashable (PDict d) = False"
| "py_hashable _ = True"

fun py_num :: "pyval \<Rightarrow> real option" where
  "py_num (PBool b) = Some (if b then 1 else 0)"
| "py_num (PInt i) = Some (real_of_int i)"
| "py_num (PFloat r) = Some r"
| "py_num _ = None"

definition py_eq :: "pyval \<Rightarrow> pyval \<Rightarrow> bool" where
  "py_eq a b =
     (case (py_num a, py_num b) of
        (Some x, Some y) \<Rightarrow> x = y
      | (None, None) \<Rightarrow> a = b
      | _ \<Rightarrow> False)"

definition py_in_set :: "pyval \<Rightarrow> pyval list \<Rightarrow> py_exc + bool" where
  "py_in_set v seen =
     (if py_hashable v then Inr (\<exists>s \<in> set seen. py_eq v s) else Inl TypeError)"

text \<open>
  The selection loop, with \<open>seen\<close> for \<^verbatim>\<open>seen_urls\<close> and \<open>viral\<close> for
  \<^verbatim>\<open>viral_content\<close>:
  \<^verbatim>\<open>if url and url not in seen_urls and len(viral_content) < 20\<close>.
\<close>

fun select_viral :: "pyval list \<Rightarrow> pyval list \<Rightarrow> pyval list \<Rightarrow> py_exc + pyval list" where
  "select_viral seen viral [] = Inr viral"
| "select_viral seen viral (content # rest) =
     (case py_get content ''url'' (PStr []) of
        Inl e \<Rightarrow> Inl e
      | Inr url \<Rightarrow>
          if \<not> py_truthy url then select_viral seen viral rest
          else (case py_in_set url seen of
                  Inl e \<Rightarrow> Inl e
                | Inr dup \<Rightarrow>
                    if \<not> dup \<and> length viral < 20
                    then select_viral (seen @ [url]) (viral @ [content]) rest
                    else select_viral seen viral rest))"

definition identify_viral_content :: "py_runtime \<Rightarrow> pyval list \<Rightarrow> py_exc + pyval list" where
  "identify_viral_content rt all_social_results =
     (if all_social_results = [] then Inr []
      else pbind (sorted_by_score rt all_social_results) (select_viral [] []))"





subsection \<open>File system, browser and clock\<close>

text \<open>
  A file has a size in bytes and, when it holds a readable JSON document, that document.
  The file system maps a path to the file there.
\<close>

datatype disk_file = File (size_of: nat) (json_of: "pyval option")

type_synonym filesystem = "string \<Rightarrow> disk_file option"

text \<open>
  The import of the browser automation library and the creation of the driver:
  the library is missing (\<^verbatim>\<open>ImportError\<close>), the set-up raises, or the driver is ready.
\<close>

datatype selenium = SeleniumMissing | DriverFails py_exc | DriverReady

text \<open>
  What the browser does in one capture attempt, up to and including
  \<^verbatim>\<open>driver.save_screenshot(path)\<close>: a step raises, the screenshot call returns without
  writing a file, or it writes a file of the given size.
\<close>

datatype save = SaveRaises py_exc | SaveFails | SaveWrites nat

text \<open>
  The environment of one analysis: the outcome of the three \<^verbatim>\<open>os.makedirs\<close> calls
  (session directory in the \<^verbatim>\<open>try\<close>, session directory in the handler, screenshot
  directory), the browser (by position of the candidate, URL and platform), the clock,
  the size of a serialised document, and whether writing the summary or the error
  record fails.
\<close>

record viral_env =
  makedirs_session :: "py_exc option"
  makedirs_handler :: "py_exc option"
  makedirs_files :: "py_exc option"
  selenium_status :: selenium
  expanded_save :: "nat \<Rightarrow> pyval \<Rightarrow> string \<Rightarrow> save"
  normal_save :: "nat \<Rightarrow> pyval \<Rightarrow> string \<Rightarrow> save"
  captured_at :: "nat \<Rightarrow> string"
  analysis_timestamp :: string
  dump_size :: "pyval \<Rightarrow> nat"
  write_summary_fails :: bool
  write_error_fails :: bool

subsection \<open>File names\<close>

definition digit_char :: "nat \<Rightarrow> char" where
  "digit_char n = ''0123456789'' ! n"

function dec :: "nat \<Rightarrow> string" where
  "dec n = (if n < 10 then [digit_char n] else dec (n div 10) @ [digit_char (n mod 10)])"
  by pat_completeness auto
termination
  by (relation "measure id") auto

declare dec.simps [simp del]

text \<open>\<^verbatim>\<open>f"{index:02d}"\<close>\<close>

definition fmt02 :: "nat \<Rightarrow> string" where
  "fmt02 n = (if n < 10 then CHR ''0'' # dec n else dec n)"

text \<open>\<^verbatim>\<open>os.path.join(a, b)\<close>\<close>

definition path_join :: "string \<Rightarrow> string \<Rightarrow> string" where
  "path_join a b =
     (if b \<noteq> [] \<and> hd b = CHR ''/'' then b
      else if a = [] \<or> last a = CHR ''/'' then a @ b
      else a @ ''/'' @ b)"

definition post_filename :: "nat \<Rightarrow> string" where
  "post_filename index = ''viral_post_'' @ fmt02 index @ ''.png''"

definition web_filename :: "nat \<Rightarrow> string" where
  "web_filename index = ''viral_web_'' @ fmt02 index @ ''.png''"

subsection \<open>The two capture attempts\<close>

definition screenshot_record ::
  "viral_env \<Rightarrow> nat \<Rightarrow> pyval \<Rightarrow> string \<Rightarrow> string \<Rightarrow> string \<Rightarrow> pyval \<Rightarrow> string \<Rightarrow> string
     \<Rightarrow> py_exc + pyval" where
  "screenshot_record env index content screenshot_path session_id filename url platform method =
     pbind (py_get content ''title'' (PStr [])) (\<lambda>title.
     pbind (py_get content ''engagement_rate'' (PInt 0)) (\<lambda>engagement.
     pbind (py_get content ''viral_score'' engagement) (\<lambda>score.
     Inr (PDict
       [(''content_data'', content),
        (''screenshot_path'', PStr screenshot_path),
        (''relative_path'', PStr (''files/'' @ session_id @ ''/'' @ filename)),
        (''filename'', PStr filename),
        (''url'', url),
        (''title'', title),
        (''platform'', PStr platform),
        (''viral_score'', score),
        (''captured_at'', PStr (captured_at env index)),
        (''capture_method'', PStr method)]))))"

text \<open>
  What both attempts do once the browser has been driven: if a step raised, report
  failure; otherwise check the file at the path. A file of more than 1024 bytes is
  recorded; a smaller one is removed.
\<close>

definition check_saved ::
  "viral_env \<Rightarrow> filesystem \<Rightarrow> pyval list \<Rightarrow> save \<Rightarrow> pyval \<Rightarrow> string \<Rightarrow> nat \<Rightarrow> string
     \<Rightarrow> pyval \<Rightarrow> string \<Rightarrow> string \<Rightarrow> string \<Rightarrow> filesystem \<times> pyval list \<times> bool" where
  "check_saved env fs screenshots_list outcome url platform index screenshots_dir content
       session_id filename method =
     (case outcome of
        SaveRaises e \<Rightarrow> (fs, screenshots_list, False)
      | _ \<Rightarrow>
         (let screenshot_path = path_join screenshots_dir filename;
              fs1 = (case outcome of
                       SaveWrites n \<Rightarrow> fs(screenshot_path \<mapsto> File n None)
                     | _ \<Rightarrow> fs)
          in case fs1 screenshot_path of
               None \<Rightarrow> (fs1, screenshots_list, False)
             | Some f \<Rightarrow>
                 if size_of f > 1024 then
                   (case screenshot_record env index content screenshot_path session_id
                           filename url platform method of
                      Inl e \<Rightarrow> (fs1, screenshots_list, False)
                    | Inr r \<Rightarrow> (fs1, screenshots_list @ [r], True))
                 else (fs1(screenshot_path := None), screenshots_list, False)))"

definition attempt_expanded_view_capture ::
  "viral_env \<Rightarrow> filesystem \<Rightarrow> pyval list \<Rightarrow> pyval \<Rightarrow> string \<Rightarrow> nat \<Rightarrow> string \<Rightarrow> pyval
     \<Rightarrow> string \<Rightarrow> filesystem \<times> pyval list \<times> bool" where
  "attempt_expanded_view_capture env fs screenshots_list url platform index screenshots_dir
       content session_id =
     check_saved env fs screenshots_list (expanded_save env index url platform) url platform
       index screenshots_dir content session_id (post_filename index) ''expanded_view''"

definition attempt_normal_page_capture ::
  "viral_env \<Rightarrow> filesystem \<Rightarrow> pyval list \<Rightarrow> pyval \<Rightarrow> string \<Rightarrow> nat \<Rightarrow> string \<Rightarrow> pyval
     \<Rightarrow> string \<Rightarrow> filesystem \<times> pyval list \<times> bool" where
  "attempt_normal_page_capture env fs screenshots_list url platform index screenshots_dir
       content session_id =
     check_saved env fs screenshots_list (normal_save env index url platform) url platform
       index screenshots_dir content session_id (web_filename index) ''full_page''"

subsection \<open>\<^verbatim>\<open>_capture_viral_screenshots\<close>\<close>

text \<open>\<^verbatim>\<open>content.get('platform', 'web').lower()\<close>\<close>

definition platform_of :: "py_runtime \<Rightarrow> pyval \<Rightarrow> py_exc + string" where
  "platform_of rt content =
     pbind (py_get content ''platform'' (PStr ''web'')) (\<lambda>p.
       case p of PStr s \<Rightarrow> Inr (str_lower rt s) | _ \<Rightarrow> Inl AttributeError)"

definition default_title :: "nat \<Rightarrow> string" where
  "default_title i = ''Conte'' @ [CHR 0xFA] @ ''do Viral '' @ dec i"

text \<open>
  The body of the loop for the candidate at position \<open>i\<close>. The third component says
  whether the loop is left: the handler of the body reads \<^verbatim>\<open>content.get('url', 'N/A')\<close>
  for its log line, which raises again when the candidate is not a mapping.
  An exception anywhere else in the body skips the candidate.
\<close>

definition capture_item ::
  "viral_env \<Rightarrow> py_runtime \<Rightarrow> string \<Rightarrow> string \<Rightarrow> nat \<Rightarrow> pyval \<Rightarrow> filesystem \<Rightarrow> pyval list
     \<Rightarrow> filesystem \<times> pyval list \<times> bool" where
  "capture_item env rt session_id screenshots_dir i content fs screenshots =
     (case py_get content ''url'' (PStr []) of
        Inl e \<Rightarrow> (fs, screenshots, True)
      | Inr url \<Rightarrow>
         (case platform_of rt content of
            Inl e \<Rightarrow> (fs, screenshots, False)
          | Inr platform \<Rightarrow>
             (case py_get content ''title'' (PStr (default_title i)) of
                Inl e \<Rightarrow> (fs, screenshots, False)
              | Inr title \<Rightarrow>
                 if \<not> py_truthy url then (fs, screenshots, False)
                 else (case py_slice title 50 of
                         Inl e \<Rightarrow> (fs, screenshots, False)
                       | Inr t \<Rightarrow>
                          (case (if sublist ''facebook'' platform \<or> sublist ''instagram'' platform
                                 then attempt_expanded_view_capture env fs screenshots url
                                        platform i screenshots_dir content session_id
                                 else (fs, screenshots, False)) of
                             (fs1, screenshots1, expanded_success) \<Rightarrow>
                               if \<not> expanded_success then
                                 (case attempt_normal_page_capture env fs1 screenshots1 url
                                         platform i screenshots_dir content session_id of
                                    (fs2, screenshots2, success) \<Rightarrow> (fs2, screenshots2, False))
                               else (fs1, screenshots1, False))))))"

text \<open>
  \<^verbatim>\<open>for i, content in enumerate(viral_content, 1)\<close>, with the \<^verbatim>\<open>break\<close> at its head.
\<close>

fun capture_loop ::
  "viral_env \<Rightarrow> py_runtime \<Rightarrow> string \<Rightarrow> string \<Rightarrow> int \<Rightarrow> nat \<Rightarrow> pyval list \<Rightarrow> filesystem
     \<Rightarrow> pyval list \<Rightarrow> filesystem \<times> pyval list" where
  "capture_loop env rt session_id screenshots_dir max_captures i [] fs screenshots =
     (fs, screenshots)"
| "capture_loop env rt session_id screenshots_dir max_captures i (content # rest) fs screenshots =
     (if int (length screenshots) \<ge> max_captures then (fs, screenshots)
      else (case capture_item env rt session_id screenshots_dir i content fs screenshots of
              (fs', screenshots', leave) \<Rightarrow>
                if leave then (fs', screenshots')
                else capture_loop env rt session_id screenshots_dir max_captures (Suc i) rest
                       fs' screenshots'))"

definition capture_viral_screenshots ::
  "viral_env \<Rightarrow> py_runtime \<Rightarrow> filesystem \<Rightarrow> pyval list \<Rightarrow> string \<Rightarrow> int
     \<Rightarrow> filesystem \<times> pyval list" where
  "capture_viral_screenshots env rt fs viral_content session_id max_captures =
     (if viral_content = [] then (fs, [])
      else (case selenium_status env of
              SeleniumMissing \<Rightarrow> (fs, [])
            | DriverFails e \<Rightarrow> (fs, [])
            | DriverReady \<Rightarrow>
               (case makedirs_files env of
                  Some e \<Rightarrow> (fs, [])
                | None \<Rightarrow>
                    capture_loop env rt session_id (''analyses_data/files/'' @ session_id)
                      max_captures 1 viral_content fs [])))"

subsection \<open>\<^verbatim>\<open>analyze_viral_content\<close>\<close>

definition session_file :: "string \<Rightarrow> string \<Rightarrow> string" where
  "session_file session_id name = ''analyses_data/'' @ session_id @ ''/'' @ name"

text \<open>
  Step 2, the loading of the research file: an absent file, and a file that cannot be
  read as JSON, leave the empty mapping.
\<close>

definition load_social_data :: "filesystem \<Rightarrow> string \<Rightarrow> pyval" where
  "load_social_data fs session_id =
     (case fs (session_file session_id ''dados_pesquisa_web.json'') of
        None \<Rightarrow> PDict []
      | Some f \<Rightarrow> (case json_of f of None \<Rightarrow> PDict [] | Some v \<Rightarrow> v))"

text \<open>\<^verbatim>\<open>a + b\<close>\<close>

fun py_int :: "pyval \<Rightarrow> int option" where
  "py_int (PBool b) = Some (if b then 1 else 0)"
| "py_int (PInt i) = Some i"
| "py_int _ = None"

definition py_add :: "pyval \<Rightarrow> pyval \<Rightarrow> py_exc + pyval" where
  "py_add a b =
     (case (a, b) of
        (PList xs, PList ys) \<Rightarrow> Inr (PList (xs @ ys))
      | (PStr s, PStr t) \<Rightarrow> Inr (PStr (s @ t))
      | _ \<Rightarrow>
         (case (py_int a, py_int b) of
            (Some i, Some j) \<Rightarrow> Inr (PInt (i + j))
          | _ \<Rightarrow>
             (case (py_num a, py_num b) of
                (Some x, Some y) \<Rightarrow> Inr (PFloat (x + y))
              | _ \<Rightarrow> Inl TypeError)))"

text \<open>
  \<^verbatim>\<open>self._identify_viral_content(combined)\<close> when \<open>combined\<close> need not be a list: a string
  is iterated character by character.
\<close>

definition identify_any :: "py_runtime \<Rightarrow> pyval \<Rightarrow> py_exc + pyval list" where
  "identify_any rt combined =
     (case combined of
        PList xs \<Rightarrow> identify_viral_content rt xs
      | PStr s \<Rightarrow> identify_viral_content rt (map (\<lambda>c. PStr [c]) s)
      | _ \<Rightarrow> Inl TypeError)"

text \<open>
  Steps 1 to 3 of the \<^verbatim>\<open>try\<close>: everything before the capture. An exception here is an
  exception of the outer orchestration.
\<close>

definition collect_viral ::
  "py_runtime \<Rightarrow> viral_env \<Rightarrow> filesystem \<Rightarrow> string \<Rightarrow> py_exc + (pyval \<times> pyval list)" where
  "collect_viral rt env fs session_id =
     (case makedirs_session env of
        Some e \<Rightarrow> Inl e
      | None \<Rightarrow>
          pbind (py_get (load_social_data fs session_id) ''social_results'' (PList []))
            (\<lambda>all_social_results.
          pbind (py_get (load_social_data fs session_id) ''youtube_results'' (PList []))
            (\<lambda>youtube_results.
          pbind (py_add all_social_results youtube_results) (\<lambda>combined.
          pbind (py_len all_social_results) (\<lambda>n1.
          pbind (py_len youtube_results) (\<lambda>n2.
          pbind (identify_any rt combined) (\<lambda>viral.
          Inr (combined, viral))))))))"

definition analysis_result ::
  "viral_env \<Rightarrow> string \<Rightarrow> string \<Rightarrow> pyval list \<Rightarrow> pyval list \<Rightarrow> nat \<Rightarrow> pyval" where
  "analysis_result env session_id search_query viral screenshots n_combined = PDict
     [(''session_id'', PStr session_id),
      (''search_query'', PStr search_query),
      (''analysis_timestamp'', PStr (analysis_timestamp env)),
      (''viral_content_identified'', PList viral),
      (''screenshots_captured'', PList screenshots),
      (''summary'', PDict
         [(''total_social_items_analyzed'', PInt (int n_combined)),
          (''viral_content_found'', PInt (int (length viral))),
          (''screenshots_taken'', PInt (int (length screenshots)))])]"

definition error_result :: "py_runtime \<Rightarrow> viral_env \<Rightarrow> string \<Rightarrow> string \<Rightarrow> py_exc \<Rightarrow> pyval" where
  "error_result rt env session_id search_query e = PDict
     [(''session_id'', PStr session_id),
      (''search_query'', PStr search_query),
      (''analysis_timestamp'', PStr (analysis_timestamp env)),
      (''viral_content_identified'', PList []),
      (''screenshots_captured'', PList []),
      (''summary'', PDict
         [(''total_social_items_analyzed'', PInt 0),
          (''viral_content_found'', PInt 0),
          (''screenshots_taken'', PInt 0),
          (''critical_error'', PStr (exc_str rt e))]),
      (''error'', PBool True),
      (''error_message'', PStr (exc_str rt e))]"

text \<open>
  The \<^verbatim>\<open>except Exception\<close> of the analysis: the directory is created again, outside
  any \<^verbatim>\<open>try\<close>; the error record is written under a \<^verbatim>\<open>try\<close> of its own; then the
  exception is raised again.
\<close>

definition analyze_handler ::
  "py_runtime \<Rightarrow> viral_env \<Rightarrow> filesystem \<Rightarrow> string \<Rightarrow> string \<Rightarrow> py_exc
     \<Rightarrow> filesystem \<times> (py_exc + pyval)" where
  "analyze_handler rt env fs search_query session_id e =
     (let registro = error_result rt env session_id search_query e in
      case makedirs_handler env of
        Some e' \<Rightarrow> (fs, Inl e')
      | None \<Rightarrow>
          (if write_error_fails env then (fs, Inl e)
           else (fs(session_file session_id ''analise_viral_erro.json'' \<mapsto>
                      File (dump_size env registro) (Some registro)),
                 Inl e)))"

definition analyze_viral_content ::
  "py_runtime \<Rightarrow> viral_env \<Rightarrow> filesystem \<Rightarrow> string \<Rightarrow> string \<Rightarrow> int
     \<Rightarrow> filesystem \<times> (py_exc + pyval)" where
  "analyze_viral_content rt env fs search_query session_id max_captures =
     (case collect_viral rt env fs session_id of
        Inl e \<Rightarrow> analyze_handler rt env fs search_query session_id e
      | Inr (combined, viral) \<Rightarrow>
         (case capture_viral_screenshots env rt fs viral session_id max_captures of
            (fs1, screenshots) \<Rightarrow>
              (case py_len combined of
                 Inl e \<Rightarrow> analyze_handler rt env fs1 search_query session_id e
               | Inr n_combined \<Rightarrow>
                  (let result = analysis_result env session_id search_query viral screenshots
                                  n_combined
                   in if write_summary_fails env then (fs1, Inr result)
                      else (fs1(session_file session_id ''analise_viral_resumo.json'' \<mapsto>
                                  File (dump_size env result) (Some result)),
                            Inr result)))))"

text \<open>Reading the result: \<^verbatim>\<open>r[k]\<close> and \<^verbatim>\<open>r["summary"][k]\<close>.\<close>

definition summary_field :: "pyval \<Rightarrow> string \<Rightarrow> py_exc + pyval" where
  "summary_field r k = pbind (py_item r ''summary'') (\<lambda>s. py_item s k)"

subsection \<open>Predicates on candidates, records and files\<close>


text \<open>
  The score a candidate is ranked by: \<open>viral_score\<close>, else \<open>engagement_rate\<close>, else \<open>0\<close>;
  and the values \<^verbatim>\<open>float\<close> rejects with \<^verbatim>\<open>ValueError\<close> or \<^verbatim>\<open>TypeError\<close>.
\<close>

definition score_value :: "(string \<times> pyval) list \<Rightarrow> pyval" where
  "score_value d = dict_get d ''viral_score'' (dict_get d ''engagement_rate'' (PInt 0))"






subsection \<open>Concrete candidates, environments and file systems\<close>

definition cand :: "string \<Rightarrow> pyval \<Rightarrow> string \<Rightarrow> pyval" where
  "cand u score t = PDict [(''url'', PStr u), (''viral_score'', score), (''title'', PStr t)]"

text \<open>
  Five candidates with scores \<open>5\<close>, \<^verbatim>\<open>"bad"\<close>, \<^verbatim>\<open>None\<close>, \<open>9\<close>, \<open>9\<close>; the last two share
  a URL.
\<close>

definition cand_A :: pyval where "cand_A = cand ''https://a'' (PInt 5) ''A''"

definition cand_fb :: pyval where
  "cand_fb = PDict [(''url'', PStr ''https://fb''), (''platform'', PStr ''facebook''),
                    (''title'', PStr ''F'')]"

text \<open>
  A browser whose expanded-view screenshots have 500 bytes and whose full-page
  screenshots have 2048 bytes; nothing else fails.
\<close>

definition env_captura :: viral_env where
  "env_captura =
     \<lparr> makedirs_session = None, makedirs_handler = None, makedirs_files = None,
       selenium_status = DriverReady,
       expanded_save = (\<lambda>i url platform. SaveWrites 500),
       normal_save = (\<lambda>i url platform. SaveWrites 2048),
       captured_at = (\<lambda>i. ''2025-01-01T00:00:00''),
       analysis_timestamp = ''2025-01-01T00:00:00'',
       dump_size = (\<lambda>v. 100),
       write_summary_fails = False,
       write_error_fails = False \<rparr>"

definition env_sem_selenium :: viral_env where
  "env_sem_selenium = env_captura \<lparr> selenium_status := SeleniumMissing \<rparr>"

definition env_escrita_falha :: viral_env where
  "env_escrita_falha = env_captura \<lparr> write_error_fails := True \<rparr>"

definition fs_vazio :: filesystem where
  "fs_vazio = (\<lambda>p. None)"

text \<open>A research file holding one social result, and one holding a JSON list.\<close>

definition fs_um_resultado :: filesystem where
  "fs_um_resultado =
     fs_vazio(session_file ''s1'' ''dados_pesquisa_web.json'' \<mapsto>
       File 64 (Some (PDict [(''social_results'', PList [cand_A])])))"

definition fs_lista :: filesystem where
  "fs_lista =
     fs_vazio(session_file ''s1'' ''dados_pesquisa_web.json'' \<mapsto> File 2 (Some (PList [])))"

section \<open>Properties of the CPL creator\<close>

subsection \<open>The structure validator\<close>

lemma all_present_dict:
  "all_present ks (PDict d) = Inr (\<forall>k \<in> set ks. has_key (PDict d) k)"
  by (induction ks) auto

lemma all_present_error:
  "ks \<noteq> [] \<Longrightarrow> (\<And>k. py_in k v = Inl TypeError) \<Longrightarrow> all_present ks v = Inl TypeError"
  by (cases ks) auto

text \<open>
  On a mapping whose \<open>fases\<close> is itself a mapping, or no container at all, the validator
  answers \<^verbatim>\<open>False\<close> exactly when a required key is absent.
\<close>

lemma validar_estrutura_cpl_mapping:
  assumes "\<forall>xs. dict_get d ''fases'' (PDict []) \<noteq> PList xs"
      and "\<forall>s. dict_get d ''fases'' (PDict []) \<noteq> PStr s"
  shows "validar_estrutura_cpl (PDict d) = False \<longleftrightarrow> required_key_absent d"
proof (cases "dict_get d ''fases'' (PDict [])")
  case (PDict f)
  then show ?thesis
    by (auto simp: validar_estrutura_cpl_def validar_body_def pbind_def all_present_dict
        required_key_absent_def)
next
  case (PList xs)
  with assms show ?thesis by simp
next
  case (PStr s)
  with assms show ?thesis by simp
qed (auto simp: validar_estrutura_cpl_def validar_body_def pbind_def all_present_dict
        required_key_absent_def all_present_error fases_esperadas_def)

text \<open>An input that is not a mapping is rejected, not raised on.\<close>

lemma validar_estrutura_cpl_not_mapping:
  "\<forall>d. m \<noteq> PDict d \<Longrightarrow> validar_estrutura_cpl m = False"
  by (cases m)
     (auto simp: validar_estrutura_cpl_def validar_body_def pbind_def campos_obrigatorios_def
        split: sum.splits if_splits)

text \<open>
  Claim C4. For every input mapping, \<^verbatim>\<open>validar_estrutura_cpl\<close> returns false if and only
  if one of the four required top-level keys or one of the five required phase keys is
  absent. The code does not do this: a module whose \<open>fases\<close> is the list of the five
  phase names has no phase key at all, and the validator accepts it, because
  \<^verbatim>\<open>fase not in fases\<close> tests membership in whatever container \<open>fases\<close> is.
\<close>

theorem validar_estrutura_cpl_accepts_list:
  "validar_estrutura_cpl (PDict cpl_fases_lista) = True \<and> required_key_absent cpl_fases_lista"
  by (simp add: validar_estrutura_cpl_def validar_body_def pbind_def cpl_fases_lista_def
      campos_obrigatorios_def fases_esperadas_def required_key_absent_def dict_get_def) blast

subsection \<open>The executive summary\<close>

lemma map_of_dict_set:
  "map_of (dict_set d k v) k' = (if k' = k then Some v else map_of d k')"
  by (induction d) auto

lemma extrair_evento_other:
  "extrair_evento a s = Inr s' \<Longrightarrow> k \<noteq> ''evento_recomendado'' \<Longrightarrow> map_of s' k = map_of s k"
  by (auto simp: extrair_evento_def pbind_def map_of_dict_set split: sum.splits if_splits)


lemma map_of_nivel_de_other:
  "k \<noteq> ''nivel_complexidade'' \<Longrightarrow> map_of (nivel_de n s) k = map_of s k"
  by (simp add: nivel_de_def map_of_dict_set)

text \<open>What a run of the body that does not raise has computed.\<close>

lemma sumario_body_InrD:
  assumes "sumario_body m = Inr s"
  obtains fases titulo n_fases estrategia arquitetura s1 nb garantias n1 n2 n3 where
    "py_get m ''fases'' (PDict []) = Inr fases"
    "extrair_evento arquitetura (sumario_inicial titulo n_fases estrategia) = Inr s1"
    "bonus_de fases = Inr nb"
    "garantias_de fases = Inr garantias"
    "len_of_field fases ''fase_2_cpl1'' ''teasers'' = Inr n1"
    "len_of_field fases ''fase_3_cpl2'' ''casos_sucesso_detalhados'' = Inr n2"
    "len_of_field fases ''fase_4_cpl3'' ''estrutura_passo_passo'' = Inr n3"
    "s = nivel_de (n1 + n2 + n3 + nb)
           (dict_set (dict_set s1 ''total_bonus'' (PInt (int nb)))
              ''total_garantias'' (PInt (int (count_garantias garantias))))"
  using assms
  by (auto simp: sumario_body_def pbind_def bonus_de_def garantias_de_def total_elementos_def
      split: sum.splits)


lemma sumario_garantias:
  assumes "sumario_body m = Inr s"
  shows "map_of s ''garantias_oferecidas'' = Some (PInt 0) \<and>
         (\<exists>fases garantias. py_get m ''fases'' (PDict []) = Inr fases \<and>
            garantias_de fases = Inr garantias \<and>
            map_of s ''total_garantias'' =
              Some (PInt (case garantias of PList gs \<Rightarrow> int (length gs) | _ \<Rightarrow> 0)))"
proof -
  from assms obtain fases titulo n_fases estrategia arquitetura s1 nb garantias n1 n2 n3 where
    f: "py_get m ''fases'' (PDict []) = Inr fases"
    and e: "extrair_evento arquitetura (sumario_inicial titulo n_fases estrategia) = Inr s1"
    and g: "garantias_de fases = Inr garantias"
    and s: "s = nivel_de (n1 + n2 + n3 + nb)
           (dict_set (dict_set s1 ''total_bonus'' (PInt (int nb)))
              ''total_garantias'' (PInt (int (count_garantias garantias))))"
    by (rule sumario_body_InrD)
  have "map_of s1 ''garantias_oferecidas'' = Some (PInt 0)"
    using extrair_evento_other [OF e, of "''garantias_oferecidas''"]
    by (simp add: sumario_inicial_def)
  then have 1: "map_of s ''garantias_oferecidas'' = Some (PInt 0)"
    unfolding s by (simp add: map_of_nivel_de_other map_of_dict_set)
  have 2: "map_of s ''total_garantias'' =
              Some (PInt (case garantias of PList gs \<Rightarrow> int (length gs) | _ \<Rightarrow> 0))"
    unfolding s
    by (simp add: map_of_nivel_de_other map_of_dict_set count_garantias_def split: pyval.splits)
  from 1 2 f g show ?thesis by blast
qed

text \<open>
  On well-shaped phases the counted lengths are the numbers of teasers, detailed cases
  and steps, and the bonus count is the number of keys that start with \<^verbatim>\<open>bonus_\<close>.
\<close>

lemma len_of_field_list:
  "dict_get f ph (PDict []) = PDict p \<Longrightarrow> dict_get p fld (PList []) = PList xs \<Longrightarrow>
   len_of_field (PDict f) ph fld = Inr (length xs)"
  by (simp add: len_of_field_def pbind_def)

lemma bonus_de_keys:
  "dict_get f ''fase_5_cpl4'' (PDict []) = PDict c \<Longrightarrow>
   dict_get c ''stack_valor'' (PDict []) = PDict sv \<Longrightarrow>
   bonus_de (PDict f) = Inr (length (filter (prefix ''bonus_'') (dict_keys sv)))"
  by (simp add: bonus_de_def count_bonus_def pbind_def)

lemma sumario_exemplo_12:
  "\<exists>s. sumario_body cpl_exemplo_12 = Inr s"
  by (simp add: sumario_body_def cpl_exemplo_12_def pbind_def dict_get_def extrair_evento_def
      count_bonus_def total_elementos_def len_of_field_def)

lemma fases_exemplo_12:
  "py_get cpl_exemplo_12 ''fases'' (PDict []) = Inr fases \<Longrightarrow>
   bonus_de fases = Inr 3 \<and>
   len_of_field fases ''fase_2_cpl1'' ''teasers'' = Inr 3 \<and>
   len_of_field fases ''fase_3_cpl2'' ''casos_sucesso_detalhados'' = Inr 2 \<and>
   len_of_field fases ''fase_4_cpl3'' ''estrutura_passo_passo'' = Inr 4 \<and>
   garantias_de fases = Inr (PList [PStr ''g1'', PStr ''g2''])"
  by (auto simp: cpl_exemplo_12_def dict_get_def bonus_de_def count_bonus_def pbind_def
      dict_keys_def len_of_field_def garantias_de_def)



text \<open>
  Claim C9. On its non-degraded path the summary has \<open>garantias_oferecidas\<close> equal to 0,
  whatever guarantees the input contains; the number of entries of phase 5's
  \<open>garantias_agressivas\<close>, when that is a list and 0 otherwise, is stored under the
  separate field \<open>total_garantias\<close>.
\<close>

theorem gerar_sumario_executivo_garantias:
  "sumario_body m = Inr s \<longrightarrow>
     gerar_sumario_executivo rt m = PDict s \<and>
     map_of s ''garantias_oferecidas'' = Some (PInt 0) \<and>
     (\<exists>fases garantias.
        py_get m ''fases'' (PDict []) = Inr fases \<and>
        garantias_de fases = Inr garantias \<and>
        map_of s ''total_garantias'' =
          Some (PInt (case garantias of PList gs \<Rightarrow> int (length gs) | _ \<Rightarrow> 0)))"
proof
  assume b: "sumario_body m = Inr s"
  then have "gerar_sumario_executivo rt m = PDict s"
    by (simp add: gerar_sumario_executivo_def)
  with sumario_garantias [OF b] show "gerar_sumario_executivo rt m = PDict s \<and>
     map_of s ''garantias_oferecidas'' = Some (PInt 0) \<and>
     (\<exists>fases garantias.
        py_get m ''fases'' (PDict []) = Inr fases \<and>
        garantias_de fases = Inr garantias \<and>
        map_of s ''total_garantias'' =
          Some (PInt (case garantias of PList gs \<Rightarrow> int (length gs) | _ \<Rightarrow> 0)))"
    by simp
qed

text \<open>A module with two guarantees: the one field stays 0, the other holds 2.\<close>

theorem gerar_sumario_executivo_garantias_witness:
  "\<exists>s. sumario_body cpl_exemplo_12 = Inr s \<and>
       gerar_sumario_executivo rt0 cpl_exemplo_12 = PDict s \<and>
       map_of s ''garantias_oferecidas'' = Some (PInt 0) \<and>
       map_of s ''total_garantias'' = Some (PInt 2)"
proof -
  from sumario_exemplo_12 obtain s where s: "sumario_body cpl_exemplo_12 = Inr s" ..
  from gerar_sumario_executivo_garantias [of cpl_exemplo_12 s rt0] s
  obtain fases garantias where
    g: "gerar_sumario_executivo rt0 cpl_exemplo_12 = PDict s"
    and z: "map_of s ''garantias_oferecidas'' = Some (PInt 0)"
    and f: "py_get cpl_exemplo_12 ''fases'' (PDict []) = Inr fases"
    and gd: "garantias_de fases = Inr garantias"
    and t: "map_of s ''total_garantias'' =
          Some (PInt (case garantias of PList gs \<Rightarrow> int (length gs) | _ \<Rightarrow> 0))"
    by blast
  from fases_exemplo_12 [OF f] gd have "garantias = PList [PStr ''g1'', PStr ''g2'']" by simp
  with t have "map_of s ''total_garantias'' = Some (PInt 2)" by simp
  with s g z show ?thesis by blast
qed

subsection \<open>The generator\<close>

lemma cpl_handler_result:
  "cpl_handler rt env saved sid e = (saved', r) \<Longrightarrow>
   (r = Inr (erro_cpl (exc_str rt e)) \<or>
    (\<exists>e'. r = Inl e' \<and>
       salvar_etapa env ''cpl_erro'' (PDict [(''erro'', PStr (exc_str rt e))])
         ''modulos_principais'' sid = Some e'))"
  by (auto simp: cpl_handler_def Let_def split: option.splits)

text \<open>On the success path the parsed module is saved and returned as it is.\<close>

lemma generate_success:
  "caminho_sucesso env sid s a c d = Some m \<Longrightarrow>
   generate_cpl_module rt env saved sid s a c d =
     (saved @ [(''cpl_completo'', m, ''modulos_principais'', sid)], Inr m)"
  by (auto simp: caminho_sucesso_def generate_cpl_module_def split: sum.splits)

text \<open>
  On a degraded path the result is the fallback structure, the error structure, or the
  exception raised by saving the error record.
\<close>

lemma generate_degraded:
  assumes "caminho_sucesso env sid s a c d = None"
    and "generate_cpl_module rt env saved sid s a c d = (saved', r)"
  shows "r = Inr fallback_cpl \<or>
         (\<exists>e. r = Inr (erro_cpl (exc_str rt e)) \<or>
            (\<exists>e'. r = Inl e' \<and>
               salvar_etapa env ''cpl_erro'' (PDict [(''erro'', PStr (exc_str rt e))])
                 ''modulos_principais'' sid = Some e'))"
  using assms
  by (auto simp: caminho_sucesso_def generate_cpl_module_def
      split: sum.splits py_exc.splits option.splits dest: cpl_handler_result)

lemma exact_keys_fallback: "exact_keys fallback_cpl campos_obrigatorios"
  by (auto simp: exact_keys_def fallback_cpl_def campos_obrigatorios_def)

lemma exact_keys_erro: "exact_keys (erro_cpl msg) campos_obrigatorios"
  by (auto simp: exact_keys_def erro_cpl_def campos_obrigatorios_def)

lemma generate_ia_falha:
  "generate_cpl_module rt0 env_ia_falha [] ''s1'' (PDict []) (PDict []) (PDict []) (PDict [])
     = ([(''cpl_erro'', PDict [(''erro'', PStr ''timeout'')], ''modulos_principais'', ''s1'')],
        Inr (erro_cpl ''timeout''))"
  by (simp add: generate_cpl_module_def env_json_vazio_def env_ia_falha_def contexto_para_ia_def
      dados_amostra_def campo_contexto_def pbind_def cpl_handler_def rt0_def)

lemma generate_texto_invalido:
  "generate_cpl_module rt0 env_texto_invalido [] ''s1'' (PDict []) (PDict []) (PDict []) (PDict [])
     = ([(''cpl_completo'', fallback_cpl, ''modulos_principais'', ''s1'')], Inr fallback_cpl)"
  by (simp add: generate_cpl_module_def env_json_vazio_def env_texto_invalido_def
      contexto_para_ia_def dados_amostra_def campo_contexto_def pbind_def parse_e_salvar_def
      py_json_loads_def)

lemma caminho_ia_falha:
  "caminho_sucesso env_ia_falha ''s1'' (PDict []) (PDict []) (PDict []) (PDict []) = None"
  by (simp add: caminho_sucesso_def env_json_vazio_def env_ia_falha_def contexto_para_ia_def
      dados_amostra_def campo_contexto_def pbind_def)

lemma caminho_texto_invalido:
  "caminho_sucesso env_texto_invalido ''s1'' (PDict []) (PDict []) (PDict []) (PDict []) = None"
  by (simp add: caminho_sucesso_def env_json_vazio_def env_texto_invalido_def
      contexto_para_ia_def dados_amostra_def campo_contexto_def pbind_def parse_e_salvar_def
      py_json_loads_def)

text \<open>
  Claim C1. For every input the value returned by \<^verbatim>\<open>generate_cpl_module\<close> is a mapping
  with exactly the keys \<open>titulo\<close>, \<open>descricao\<close>, \<open>fases\<close>, \<open>consideracoes_finais\<close>, also when
  the AI backend raises and when it returns text that is not JSON.
  This fails when the backend's answer parses: the parsed value is returned unchecked.
  What holds: on the success path the result is the parsed value itself; on every
  degraded path the result is a mapping with exactly the four keys, unless saving the
  error record raises, and then that exception is what the caller gets.
\<close>

theorem generate_cpl_module_shape:
  assumes "generate_cpl_module rt env saved sid sintese avatar contexto dados = (saved', r)"
  shows "case caminho_sucesso env sid sintese avatar contexto dados of
           Some parsed \<Rightarrow> r = Inr parsed
         | None \<Rightarrow>
            (case r of
               Inr v \<Rightarrow> exact_keys v campos_obrigatorios
             | Inl e' \<Rightarrow>
                 \<exists>e. salvar_etapa env ''cpl_erro'' (PDict [(''erro'', PStr (exc_str rt e))])
                        ''modulos_principais'' sid = Some e')"
proof (cases "caminho_sucesso env sid sintese avatar contexto dados")
  case None
  from generate_degraded [OF None assms] None show ?thesis
    by (auto simp: exact_keys_fallback exact_keys_erro)
next
  case (Some m)
  with generate_success [OF Some, of rt saved] assms show ?thesis by simp
qed

text \<open>
  A backend that raises gives the error structure, a backend that answers with text
  that is not JSON gives the fallback structure; both have exactly the four keys.
\<close>

theorem generate_cpl_module_shape_witness:
  "snd (generate_cpl_module rt0 env_ia_falha [] ''s1'' (PDict []) (PDict []) (PDict []) (PDict []))
     = Inr (erro_cpl ''timeout'') \<and>
   exact_keys (erro_cpl ''timeout'') campos_obrigatorios \<and>
   snd (generate_cpl_module rt0 env_texto_invalido [] ''s1'' (PDict []) (PDict []) (PDict [])
          (PDict []))
     = Inr fallback_cpl \<and>
   exact_keys fallback_cpl campos_obrigatorios"
  using generate_cpl_module_shape [OF generate_ia_falha]
    generate_cpl_module_shape [OF generate_texto_invalido]
  by (simp add: generate_ia_falha generate_texto_invalido caminho_ia_falha
      caminho_texto_invalido)

text \<open>
  The backend answers \<^verbatim>\<open>{}\<close>: the generator returns the empty mapping, which has none of
  the four keys.
\<close>

theorem generate_cpl_module_shape_counterexample:
  "snd (generate_cpl_module rt0 env_json_vazio [] ''s1'' (PDict []) (PDict []) (PDict [])
          (PDict []))
     = Inr (PDict []) \<and>
   \<not> exact_keys (PDict []) campos_obrigatorios"
  by (simp add: generate_cpl_module_def env_json_vazio_def contexto_para_ia_def
      dados_amostra_def campo_contexto_def pbind_def parse_e_salvar_def py_json_loads_def
      exact_keys_def campos_obrigatorios_def)

subsection \<open>The complete flow\<close>

lemma validar_fallback: "validar_estrutura_cpl fallback_cpl = False"
  by (simp add: validar_estrutura_cpl_def validar_body_def pbind_def fallback_cpl_def
      campos_obrigatorios_def fases_esperadas_def dict_get_def)

lemma validar_erro: "validar_estrutura_cpl (erro_cpl msg) = False"
  by (simp add: validar_estrutura_cpl_def validar_body_def pbind_def erro_cpl_def
      campos_obrigatorios_def fases_esperadas_def dict_get_def)

lemma estrutura_fluxo_erro: "estrutura_valida_de (fluxo_erro rt env sid e) = Inr (PBool False)"
  by (simp add: estrutura_valida_de_def fluxo_erro_def pbind_def)

lemma estrutura_resultado:
  "estrutura_valida_de (resultado_final env sid m b su n s a c d) = Inr (PBool b)"
  by (simp add: estrutura_valida_de_def resultado_final_def pbind_def)

lemma executar_invalid:
  assumes "generate_cpl_module rt env saved sid s a c d = (saved', r)"
    and "\<And>m. r = Inr m \<Longrightarrow> validar_estrutura_cpl m = False"
  shows "estrutura_valida_de (snd (executar_fluxo_completo_cpl rt env saved sid s a c d))
           = Inr (PBool False)"
  using assms
  by (auto simp: executar_fluxo_completo_cpl_def Let_def estrutura_fluxo_erro estrutura_resultado
      split: sum.splits option.splits)

text \<open>
  Claim C10. Both degraded structures of \<^verbatim>\<open>generate_cpl_module\<close>, the parse-failure
  fallback and the error structure, have an empty \<open>fases\<close> mapping, so
  \<^verbatim>\<open>validar_estrutura_cpl\<close> returns false on either; and whenever the generator takes a
  degraded path inside \<^verbatim>\<open>executar_fluxo_completo_cpl\<close>, the flow result has
  \<open>validacao.estrutura_valida\<close> false.
\<close>

theorem executar_fluxo_degraded_invalid:
  "py_item fallback_cpl ''fases'' = Inr (PDict []) \<and>
   py_item (erro_cpl msg) ''fases'' = Inr (PDict []) \<and>
   validar_estrutura_cpl fallback_cpl = False \<and>
   validar_estrutura_cpl (erro_cpl msg) = False \<and>
   (caminho_sucesso env sid sintese avatar contexto dados = None \<longrightarrow>
      estrutura_valida_de
        (snd (executar_fluxo_completo_cpl rt env saved sid sintese avatar contexto dados))
        = Inr (PBool False))"
proof (intro conjI impI)
  show "py_item fallback_cpl ''fases'' = Inr (PDict [])" by (simp add: fallback_cpl_def)
  show "py_item (erro_cpl msg) ''fases'' = Inr (PDict [])" by (simp add: erro_cpl_def)
  show "validar_estrutura_cpl fallback_cpl = False" by (rule validar_fallback)
  show "validar_estrutura_cpl (erro_cpl msg) = False" by (rule validar_erro)
next
  assume n: "caminho_sucesso env sid sintese avatar contexto dados = None"
  obtain saved' r where
    g: "generate_cpl_module rt env saved sid sintese avatar contexto dados = (saved', r)"
    by (cases "generate_cpl_module rt env saved sid sintese avatar contexto dados")
  from generate_degraded [OF n g]
  have "\<And>m. r = Inr m \<Longrightarrow> validar_estrutura_cpl m = False"
    by (auto simp: validar_fallback validar_erro)
  with g show "estrutura_valida_de
        (snd (executar_fluxo_completo_cpl rt env saved sid sintese avatar contexto dados))
        = Inr (PBool False)"
    by (rule executar_invalid)
qed

text \<open>The flow with a backend that raises, and with one that answers with invalid text.\<close>

theorem executar_fluxo_degraded_invalid_witness:
  "caminho_sucesso env_ia_falha ''s1'' (PDict []) (PDict []) (PDict []) (PDict []) = None \<and>
   estrutura_valida_de
     (snd (executar_fluxo_completo_cpl rt0 env_ia_falha [] ''s1'' (PDict []) (PDict [])
             (PDict []) (PDict [])))
     = Inr (PBool False) \<and>
   caminho_sucesso env_texto_invalido ''s1'' (PDict []) (PDict []) (PDict []) (PDict []) = None \<and>
   estrutura_valida_de
     (snd (executar_fluxo_completo_cpl rt0 env_texto_invalido [] ''s1'' (PDict []) (PDict [])
             (PDict []) (PDict [])))
     = Inr (PBool False)"
  using executar_fluxo_degraded_invalid
          [of "[]" env_ia_falha "''s1''" "PDict []" "PDict []" "PDict []" "PDict []" rt0 "[]"]
        executar_fluxo_degraded_invalid
          [of "[]" env_texto_invalido "''s1''" "PDict []" "PDict []" "PDict []" "PDict []" rt0 "[]"]
  by (simp add: caminho_ia_falha caminho_texto_invalido)

section \<open>Properties of the viral content analyzer\<close>

subsection \<open>Scores\<close>

lemma sort_key_score_dict:
  "sort_key_score rt (PDict d) =
     (case py_float rt (score_value d) of
        Inr r \<Rightarrow> Inr r
      | Inl e \<Rightarrow> if value_or_type_error e then Inr 0 else Inl e)"
  by (simp add: sort_key_score_def pbind_def score_value_def)


text \<open>On a mapping the key function raises only for an integer too large for a float.\<close>

lemma sort_key_score_raises:
  "sort_key_score rt (PDict d) = Inl e \<Longrightarrow>
   e = OverflowError \<and> (\<exists>i. score_value d = PInt i \<and> 2 ^ 53 < \<bar>i\<bar>)"
  by (auto simp: sort_key_score_dict py_float_def value_or_type_error_def
      split: pyval.splits if_splits option.splits)


subsection \<open>Sorting\<close>








subsection \<open>The selection loop\<close>






subsection \<open>First-seen selection\<close>






subsection \<open>The ranking\<close>






subsection \<open>File names are distinct\<close>













lemma hd_post_filename [simp]: "hd (post_filename i) \<noteq> CHR ''/''"
  by (simp add: post_filename_def)

lemma hd_web_filename [simp]: "hd (web_filename i) \<noteq> CHR ''/''"
  by (simp add: web_filename_def)


lemma dec_1: "dec (Suc 0) = ''1''"
  by (subst dec.simps) (simp add: digit_char_def)

subsection \<open>One capture attempt\<close>





subsection \<open>One candidate\<close>


subsection \<open>The capture loop\<close>















lemma attempt_expanded_fb:
  "attempt_expanded_view_capture env_captura fs_vazio [] (PStr ''https://fb'') ''facebook'' 1
     ''analyses_data/files/s1'' cand_fb ''s1''
     = (fs_vazio(''analyses_data/files/s1/viral_post_01.png'' := None), [], False)"
  by (simp add: attempt_expanded_view_capture_def check_saved_def env_captura_def
      path_join_def post_filename_def fmt02_def dec_1 fs_vazio_def)




subsection \<open>The analysis\<close>

lemma collect_viral_len:
  "collect_viral rt env fs sid = Inr (combined, viral) \<Longrightarrow> \<exists>n. py_len combined = Inr n"
  by (auto simp: collect_viral_def pbind_def py_add_def
      split: option.splits sum.splits pyval.splits prod.splits)

lemma capture_missing:
  "selenium_status env = SeleniumMissing \<Longrightarrow>
   capture_viral_screenshots env rt fs viral sid maxc = (fs, [])"
  by (simp add: capture_viral_screenshots_def)

text \<open>A missing browser library alone never makes the analysis raise.\<close>

lemma analyze_import_missing:
  assumes "selenium_status env = SeleniumMissing"
    and "collect_viral rt env fs sid = Inr (combined, viral)"
  shows "\<exists>fs' r. analyze_viral_content rt env fs q sid maxc = (fs', Inr r) \<and>
           py_item r ''screenshots_captured'' = Inr (PList [])"
proof -
  from collect_viral_len [OF assms(2)] obtain n where "py_len combined = Inr n" ..
  with assms show ?thesis
    by (simp add: analyze_viral_content_def capture_missing analysis_result_def Let_def)
qed

text \<open>What the handler does with an exception of the outer orchestration.\<close>

lemma analyze_outer_exception:
  assumes "collect_viral rt env fs sid = Inl e"
  shows "analyze_viral_content rt env fs q sid maxc =
          (case makedirs_handler env of
             Some e' \<Rightarrow> (fs, Inl e')
           | None \<Rightarrow>
              (if write_error_fails env then fs
               else fs(session_file sid ''analise_viral_erro.json'' \<mapsto>
                      File (dump_size env (error_result rt env sid q e))
                           (Some (error_result rt env sid q e))),
               Inl e))"
  using assms
  by (simp add: analyze_viral_content_def analyze_handler_def Let_def split: option.splits)

text \<open>The analysis raises only for an exception of the outer orchestration.\<close>

lemma analyze_raises_only_outer:
  assumes "analyze_viral_content rt env fs q sid maxc = (fs', Inl e')"
  shows "\<exists>e. collect_viral rt env fs sid = Inl e"
proof (cases "collect_viral rt env fs sid")
  case (Inl e)
  then show ?thesis by blast
next
  case (Inr cv)
  obtain combined viral where cv: "cv = (combined, viral)" by (cases cv)
  from collect_viral_len [OF Inr [unfolded cv]] obtain n where "py_len combined = Inr n" ..
  with assms Inr cv show ?thesis
    by (auto simp: analyze_viral_content_def Let_def split: prod.splits if_splits)
qed

lemma load_absent:
  "fs (session_file sid ''dados_pesquisa_web.json'') = None \<Longrightarrow>
   load_social_data fs sid = PDict []"
  by (simp add: load_social_data_def)

lemma collect_absent:
  "fs (session_file sid ''dados_pesquisa_web.json'') = None \<Longrightarrow>
   makedirs_session env = None \<Longrightarrow>
   collect_viral rt env fs sid = Inr (PList [], [])"
  by (simp add: collect_viral_def load_absent pbind_def dict_get_def py_add_def identify_any_def
      identify_viral_content_def)

lemma analyze_absent:
  assumes "fs (session_file sid ''dados_pesquisa_web.json'') = None"
    and "makedirs_session env = None"
  shows "\<exists>fs' r. analyze_viral_content rt env fs q sid maxc = (fs', Inr r) \<and>
           py_item r ''viral_content_identified'' = Inr (PList []) \<and>
           py_item r ''screenshots_captured'' = Inr (PList []) \<and>
           summary_field r ''viral_content_found'' = Inr (PInt 0)"
  using collect_absent [of fs sid env rt] assms
  by (simp add: analyze_viral_content_def capture_viral_screenshots_def analysis_result_def
      summary_field_def pbind_def Let_def)

lemma collect_um_resultado:
  "collect_viral rt0 env_sem_selenium fs_um_resultado ''s1'' = Inr (PList [cand_A], [cand_A])"
  by (simp add: collect_viral_def env_sem_selenium_def env_captura_def load_social_data_def
      fs_um_resultado_def fs_vazio_def pbind_def dict_get_def py_add_def identify_any_def
      identify_viral_content_def sorted_by_score_def sort_key_score_def py_float_def
      cand_A_def cand_def py_in_set_def)

lemma collect_lista:
  "collect_viral rt0 env fs_lista ''s1'' =
     (case makedirs_session env of Some e \<Rightarrow> Inl e | None \<Rightarrow> Inl AttributeError)"
  by (simp add: collect_viral_def load_social_data_def fs_lista_def fs_vazio_def pbind_def
      split: option.splits)

text \<open>
  Claim C3. \<^verbatim>\<open>analyze_viral_content\<close> has an asymmetric failure contract: when the import
  of the browser automation fails, the call returns a normal result with an empty
  \<open>screenshots_captured\<close> rather than raising; an unexpected exception in the outer
  orchestration is persisted as an error record to \<^verbatim>\<open>analise_viral_erro.json\<close> and then
  raised again.
  The record is not always persisted: the write is under a \<^verbatim>\<open>try\<close> of its own and may
  fail. What holds: a failed import never makes the call raise, and the result then has
  no screenshots; an exception of the outer orchestration always reaches the caller; it
  is the original exception when the handler can create the directory, and the error
  record is then on disk exactly when its write does not fail.
\<close>

theorem analyze_viral_content_failure_contract:
  "(selenium_status env = SeleniumMissing \<longrightarrow>
      collect_viral rt env fs sid = Inr (combined, viral) \<longrightarrow>
      (\<exists>fs' r. analyze_viral_content rt env fs q sid max_captures = (fs', Inr r) \<and>
               py_item r ''screenshots_captured'' = Inr (PList []))) \<and>
   (collect_viral rt env fs sid = Inl e \<longrightarrow>
      analyze_viral_content rt env fs q sid max_captures =
        (case makedirs_handler env of
           Some e' \<Rightarrow> (fs, Inl e')
         | None \<Rightarrow>
            (if write_error_fails env then fs
             else fs(session_file sid ''analise_viral_erro.json'' \<mapsto>
                    File (dump_size env (error_result rt env sid q e))
                         (Some (error_result rt env sid q e))),
             Inl e))) \<and>
   (analyze_viral_content rt env fs q sid max_captures = (fs'', Inl e'') \<longrightarrow>
      (\<exists>e0. collect_viral rt env fs sid = Inl e0))"
proof (intro conjI)
  show "selenium_status env = SeleniumMissing \<longrightarrow>
      collect_viral rt env fs sid = Inr (combined, viral) \<longrightarrow>
      (\<exists>fs' r. analyze_viral_content rt env fs q sid max_captures = (fs', Inr r) \<and>
               py_item r ''screenshots_captured'' = Inr (PList []))"
    using analyze_import_missing by blast
  show "collect_viral rt env fs sid = Inl e \<longrightarrow>
      analyze_viral_content rt env fs q sid max_captures =
        (case makedirs_handler env of
           Some e' \<Rightarrow> (fs, Inl e')
         | None \<Rightarrow>
            (if write_error_fails env then fs
             else fs(session_file sid ''analise_viral_erro.json'' \<mapsto>
                    File (dump_size env (error_result rt env sid q e))
                         (Some (error_result rt env sid q e))),
             Inl e))"
    by (rule impI) (rule analyze_outer_exception)
  show "analyze_viral_content rt env fs q sid max_captures = (fs'', Inl e'') \<longrightarrow>
      (\<exists>e0. collect_viral rt env fs sid = Inl e0)"
    by (rule impI) (rule analyze_raises_only_outer)
qed

text \<open>
  One candidate and no browser library: a normal result without screenshots. A research
  file that holds a list: \<^verbatim>\<open>AttributeError\<close> reaches the caller and the error record is
  on disk.
\<close>

theorem analyze_viral_content_failure_contract_witness:
  "selenium_status env_sem_selenium = SeleniumMissing \<and>
   collect_viral rt0 env_sem_selenium fs_um_resultado ''s1'' = Inr (PList [cand_A], [cand_A]) \<and>
   (\<exists>fs' r. analyze_viral_content rt0 env_sem_selenium fs_um_resultado ''q'' ''s1'' 15
               = (fs', Inr r) \<and>
            py_item r ''screenshots_captured'' = Inr (PList [])) \<and>
   collect_viral rt0 env_captura fs_lista ''s1'' = Inl AttributeError \<and>
   snd (analyze_viral_content rt0 env_captura fs_lista ''q'' ''s1'' 15) = Inl AttributeError \<and>
   fst (analyze_viral_content rt0 env_captura fs_lista ''q'' ''s1'' 15)
       (session_file ''s1'' ''analise_viral_erro.json'')
     = Some (File 100 (Some (error_result rt0 env_captura ''s1'' ''q'' AttributeError)))"
proof -
  have m: "selenium_status env_sem_selenium = SeleniumMissing"
    by (simp add: env_sem_selenium_def)
  from analyze_viral_content_failure_contract
         [where env = env_sem_selenium and rt = rt0 and fs = fs_um_resultado and sid = "''s1''"
            and combined = "PList [cand_A]" and viral = "[cand_A]" and q = "''q''"
            and max_captures = 15 and e = AttributeError and fs'' = fs_vazio
            and e'' = AttributeError]
       m collect_um_resultado
  have a: "\<exists>fs' r. analyze_viral_content rt0 env_sem_selenium fs_um_resultado ''q'' ''s1'' 15
               = (fs', Inr r) \<and>
            py_item r ''screenshots_captured'' = Inr (PList [])"
    by blast
  have c: "collect_viral rt0 env_captura fs_lista ''s1'' = Inl AttributeError"
    by (simp add: collect_lista env_captura_def)
  from analyze_viral_content_failure_contract
         [where env = env_captura and rt = rt0 and fs = fs_lista and sid = "''s1''"
            and combined = "PList []" and viral = "[]" and q = "''q''"
            and max_captures = 15 and e = AttributeError and fs'' = fs_vazio
            and e'' = AttributeError]
       c
  have "analyze_viral_content rt0 env_captura fs_lista ''q'' ''s1'' 15 =
        (case makedirs_handler env_captura of
           Some e' \<Rightarrow> (fs_lista, Inl e')
         | None \<Rightarrow>
            (if write_error_fails env_captura then fs_lista
             else fs_lista(session_file ''s1'' ''analise_viral_erro.json'' \<mapsto>
                    File (dump_size env_captura
                            (error_result rt0 env_captura ''s1'' ''q'' AttributeError))
                         (Some (error_result rt0 env_captura ''s1'' ''q'' AttributeError))),
             Inl AttributeError))"
    by blast
  then have b: "snd (analyze_viral_content rt0 env_captura fs_lista ''q'' ''s1'' 15)
                  = Inl AttributeError"
    and d: "fst (analyze_viral_content rt0 env_captura fs_lista ''q'' ''s1'' 15)
       (session_file ''s1'' ''analise_viral_erro.json'')
     = Some (File 100 (Some (error_result rt0 env_captura ''s1'' ''q'' AttributeError)))"
    by (simp_all add: env_captura_def)
  from m collect_um_resultado a c b d show ?thesis by blast
qed

text \<open>
  The research file holds a list and the write of the error record fails: the exception
  reaches the caller and there is no \<^verbatim>\<open>analise_viral_erro.json\<close>.
\<close>

theorem analyze_viral_content_failure_contract_counterexample:
  "snd (analyze_viral_content rt0 env_escrita_falha fs_lista ''q'' ''s1'' 15)
     = Inl AttributeError \<and>
   fst (analyze_viral_content rt0 env_escrita_falha fs_lista ''q'' ''s1'' 15)
       (session_file ''s1'' ''analise_viral_erro.json'') = None"
  by (simp add: analyze_viral_content_def collect_viral_def env_escrita_falha_def env_captura_def
      load_social_data_def fs_lista_def fs_vazio_def session_file_def pbind_def
      analyze_handler_def)

text \<open>
  Claim C8. When the research file \<^verbatim>\<open>dados_pesquisa_web.json\<close> of the session is absent,
  \<^verbatim>\<open>analyze_viral_content\<close> does not raise during the loading step and proceeds with an
  empty candidate set: once the session directory exists, it returns a result whose
  summary reports \<open>viral_content_found = 0\<close>.
\<close>

theorem analyze_viral_content_absent_file:
  "fs (session_file sid ''dados_pesquisa_web.json'') = None \<longrightarrow>
     load_social_data fs sid = PDict [] \<and>
     (makedirs_session env = None \<longrightarrow>
        collect_viral rt env fs sid = Inr (PList [], []) \<and>
        (\<exists>fs' r. analyze_viral_content rt env fs q sid max_captures = (fs', Inr r) \<and>
                 py_item r ''viral_content_identified'' = Inr (PList []) \<and>
                 py_item r ''screenshots_captured'' = Inr (PList []) \<and>
                 summary_field r ''viral_content_found'' = Inr (PInt 0)))"
  using load_absent [of fs sid] collect_absent [of fs sid env rt]
    analyze_absent [of fs sid env rt q max_captures]
  by blast

text \<open>The empty file system.\<close>

theorem analyze_viral_content_absent_file_witness:
  "fs_vazio (session_file ''s1'' ''dados_pesquisa_web.json'') = None \<and>
   makedirs_session env_captura = None \<and>
   load_social_data fs_vazio ''s1'' = PDict [] \<and>
   (\<exists>fs' r. analyze_viral_content rt0 env_captura fs_vazio ''q'' ''s1'' 15 = (fs', Inr r) \<and>
            summary_field r ''viral_content_found'' = Inr (PInt 0))"
proof -
  have a: "fs_vazio (session_file ''s1'' ''dados_pesquisa_web.json'') = None"
    by (simp add: fs_vazio_def)
  have m: "makedirs_session env_captura = None" by (simp add: env_captura_def)
  from analyze_viral_content_absent_file
         [of fs_vazio "''s1''" env_captura rt0 "''q''" 15] a m
  show ?thesis by blast
qed

end
